theory Spec2Isabelle
  imports Complex_Main "HOL-Library.Word"
begin

section \<open>Python strings\<close>

text \<open>
  Python strings are modelled by their UTF-8 bytes (\<open>string\<close>), so \<open>str.encode()\<close> is
  the identity. \<open>str.lower()\<close> is modelled on the ASCII letters, which is all the
  country table of \<open>determine_country_from_team_name\<close> contains.
\<close>

definition lower_char :: "char \<Rightarrow> char" where
  "lower_char c =
     (if (65::nat) \<le> of_char c \<and> of_char c \<le> (90::nat)
      then char_of (of_char c + (32::nat)) else c)"

definition lower :: "string \<Rightarrow> string" where
  "lower s = map lower_char s"

fun starts_with :: "string \<Rightarrow> string \<Rightarrow> bool" where
  "starts_with [] s = True"
| "starts_with (k # ks) [] = False"
| "starts_with (k # ks) (c # cs) = (k = c \<and> starts_with ks cs)"

text \<open>\<open>py_in key s\<close> is Python's \<open>key in s\<close> on strings.\<close>

fun py_in :: "string \<Rightarrow> string \<Rightarrow> bool" where
  "py_in k [] = (k = [])"
| "py_in k (c # cs) = (starts_with k (c # cs) \<or> py_in k cs)"

text \<open>The mathematical notion the membership test computes.\<close>

definition substring_of :: "string \<Rightarrow> string \<Rightarrow> bool" where
  "substring_of k s = (\<exists>ps ss. s = ps @ k @ ss)"

section \<open>Team country back-fill (\<open>determine_country_from_team_name\<close>)\<close>

text \<open>The dict literal, in insertion order, which is the order the loop visits it in.\<close>

definition country_mapping :: "(string \<times> string) list" where
  "country_mapping =
     [(''india'', ''India''), (''australia'', ''Australia''), (''england'', ''England''),
      (''pakistan'', ''Pakistan''), (''south africa'', ''South Africa''),
      (''new zealand'', ''New Zealand''), (''sri lanka'', ''Sri Lanka''),
      (''bangladesh'', ''Bangladesh''), (''afghanistan'', ''Afghanistan''),
      (''west indies'', ''West Indies''), (''ireland'', ''Ireland''),
      (''scotland'', ''Scotland''), (''netherlands'', ''Netherlands''),
      (''zimbabwe'', ''Zimbabwe''), (''hong kong'', ''Hong Kong''),
      (''uae'', ''United Arab Emirates''),
      (''united arab emirates'', ''United Arab Emirates'')]"

text \<open>The \<open>for key, value in country_mapping.items()\<close> loop with its early return.\<close>

fun country_loop :: "(string \<times> string) list \<Rightarrow> string \<Rightarrow> string option" where
  "country_loop [] team_lower = None"
| "country_loop ((key, val) # rest) team_lower =
     (if py_in key team_lower then Some val else country_loop rest team_lower)"

definition determine_country_from_team_name :: "string \<Rightarrow> string" where
  "determine_country_from_team_name team_name =
     (let team_lower = lower team_name in
      case country_loop country_mapping team_lower of
        Some v \<Rightarrow> v
      | None \<Rightarrow> team_name)"

section \<open>Errors and the fetcher object\<close>

text \<open>The exceptions the modelled code can raise, as values.\<close>

datatype py_error = NameError string | ValueError | RecursionError | IntegrityError | InterfaceError

text \<open>The \<open>self.stats\<close> counters of \<open>CricbuzzDataFetcher\<close>.\<close>

record fetcher =
  api_calls :: nat
  successful_calls :: nat
  failed_calls :: nat
  teams_stored :: nat
  players_stored :: nat
  matches_stored :: nat
  venues_stored :: nat
  performances_stored :: nat

section \<open>Identity Resolver (\<open>generate_player_id\<close>)\<close>

text \<open>\<open>str(n)\<close> for the integer and \<open>None\<close> values an f-string formats.\<close>

definition digit_char :: "nat \<Rightarrow> char" where
  "digit_char n = ''0123456789'' ! (n mod 10)"

function str_nat :: "nat \<Rightarrow> string" where
  "str_nat n = (if n < 10 then [digit_char n] else str_nat (n div 10) @ [digit_char (n mod 10)])"
  by pat_completeness auto
termination
  by (relation "measure (\<lambda>n. n)") auto

definition str_int :: "int \<Rightarrow> string" where
  "str_int i = (if i < 0 then CHR ''-'' # str_nat (nat (- i)) else str_nat (nat i))"

definition str_opt_int :: "int option \<Rightarrow> string" where
  "str_opt_int v = (case v of None \<Rightarrow> ''None'' | Some i \<Rightarrow> str_int i)"

text \<open>
  \<open>hashlib.md5\<close> is library code: it enters as a parameter giving the 128-bit digest of
  a byte string. \<open>hexdigest\<close> writes the digest as 32 lower-case hexadecimal digits, most
  significant first.
\<close>

definition hex_char :: "nat \<Rightarrow> char" where
  "hex_char n = ''0123456789abcdef'' ! (n mod 16)"

definition hexdigest :: "128 word \<Rightarrow> string" where
  "hexdigest d = map (\<lambda>i. hex_char (unat (drop_bit (4 * (31 - i)) d) mod 16)) [0..<32]"

text \<open>
  \<open>int(s, 16)\<close> on a string of hexadecimal digits; an empty string or any other
  character is a ValueError (the sign, prefix and underscore forms Python also reads
  cannot occur in a digest).
\<close>

definition hex_val :: "char \<Rightarrow> nat option" where
  "hex_val c =
     (let n = (of_char c :: nat) in
      if 48 \<le> n \<and> n \<le> 57 then Some (n - 48)
      else if 97 \<le> n \<and> n \<le> 102 then Some (n - 87)
      else if 65 \<le> n \<and> n \<le> 70 then Some (n - 55)
      else None)"

fun int16_loop :: "int \<Rightarrow> string \<Rightarrow> py_error + int" where
  "int16_loop acc [] = Inr acc"
| "int16_loop acc (c # cs) =
     (case hex_val c of
        None \<Rightarrow> Inl ValueError
      | Some v \<Rightarrow> int16_loop (16 * acc + int v) cs)"

definition int16 :: "string \<Rightarrow> py_error + int" where
  "int16 s = (if s = [] then Inl ValueError else int16_loop 0 s)"

text \<open>
  The method itself. It receives \<open>self\<close> and neither reads nor writes it.
\<close>

definition generate_player_id ::
  "(string \<Rightarrow> 128 word) \<Rightarrow> fetcher \<Rightarrow> string \<Rightarrow> string \<Rightarrow> int option \<Rightarrow> py_error + int" where
  "generate_player_id md5 self player_key player_name team_id =
     (let unique_string = player_key @ ''_'' @ player_name @ ''_'' @ str_opt_int team_id;
          hash_obj = md5 unique_string
      in case int16 (take 8 (hexdigest hash_obj)) of
           Inl e \<Rightarrow> Inl e
         | Inr player_id \<Rightarrow> Inr (\<bar>player_id\<bar> mod 999999999 + 1000000))"

section \<open>API requests (\<open>make_api_request\<close>)\<close>

text \<open>
  What \<open>self.session.get\<close> gives back: a response with its status code and its body as
  decoded by \<open>response.json()\<close> (\<open>None\<close> when the body is not JSON, which raises), or a
  \<open>RequestException\<close> (timeout, connection failure).
\<close>

datatype 'd response = Response nat "'d option" | RequestException

text \<open>
  The outside world of a call: how many requests have been sent so far, and the seconds
  spent in \<open>time.sleep\<close>. The server is a function from the number of requests sent
  before to the response of the next one.
\<close>

record world =
  sent :: nat
  slept :: nat

definition is_rate_limited :: "'d response \<Rightarrow> bool" where
  "is_rate_limited r = (case r of Response code body \<Rightarrow> code = 429 | RequestException \<Rightarrow> False)"

text \<open>What a call returns when its response is not a rate-limit signal.\<close>

definition final_result :: "'d response \<Rightarrow> 'd option" where
  "final_result r =
     (case r of
        Response code body \<Rightarrow> (if code = 200 then body else None)
      | RequestException \<Rightarrow> None)"

text \<open>
  The method, with the number of stack frames Python still allows as first argument:
  the retry is a recursive call, and a call that cannot get a frame raises
  \<open>RecursionError\<close> at the call site, inside the caller's \<open>try\<close>, where
  \<open>except Exception\<close> turns it into \<open>None\<close>.
\<close>

fun make_api_request ::
  "nat \<Rightarrow> (nat \<Rightarrow> 'd response) \<Rightarrow> fetcher \<times> world \<Rightarrow> (py_error + 'd option) \<times> fetcher \<times> world" where
  "make_api_request 0 server (self, w) = (Inl RecursionError, self, w)"
| "make_api_request (Suc frames) server (self, w) =
     (let self1 = self\<lparr>api_calls := api_calls self + 1\<rparr>;
          w1 = w\<lparr>sent := sent w + 1, slept := slept w + 1\<rparr>
      in case server (sent w) of
           RequestException \<Rightarrow>
             (Inr None, self1\<lparr>failed_calls := failed_calls self1 + 1\<rparr>, w1)
         | Response status_code body \<Rightarrow>
             if status_code = 200 then
               (case body of
                  Some data \<Rightarrow>
                    (Inr (Some data), self1\<lparr>successful_calls := successful_calls self1 + 1\<rparr>, w1)
                | None \<Rightarrow>
                    (Inr None,
                     self1\<lparr>successful_calls := successful_calls self1 + 1,
                            failed_calls := failed_calls self1 + 1\<rparr>, w1))
             else if status_code = 429 then
               (let self2 = self1\<lparr>failed_calls := failed_calls self1 + 1\<rparr>;
                    w2 = w1\<lparr>slept := slept w1 + 60\<rparr>
                in case make_api_request frames server (self2, w2) of
                     (Inl e, self3, w3) \<Rightarrow>
                       (Inr None, self3\<lparr>failed_calls := failed_calls self3 + 1\<rparr>, w3)
                   | (Inr r, self3, w3) \<Rightarrow> (Inr r, self3, w3))
             else (Inr None, self1\<lparr>failed_calls := failed_calls self1 + 1\<rparr>, w1))"

text \<open>A server that answers 429 to the first two requests and 200 to the third.\<close>

definition busy_twice :: "nat \<Rightarrow> unit response" where
  "busy_twice i = (if i < 2 then Response 429 None else Response 200 (Some ()))"

definition fresh_fetcher :: fetcher where
  "fresh_fetcher =
     \<lparr>api_calls = 0, successful_calls = 0, failed_calls = 0, teams_stored = 0,
      players_stored = 0, matches_stored = 0, venues_stored = 0, performances_stored = 0\<rparr>"

definition fresh_world :: world where
  "fresh_world = \<lparr>sent = 0, slept = 0\<rparr>"

section \<open>The relational store\<close>

text \<open>
  Each table of \<open>init_database\<close> is the list of its rows in insertion order. Columns are
  prefixed with an abbreviation of their table (\<open>t_\<close> teams, \<open>v_\<close> venues, \<open>s_\<close> series,
  \<open>m_\<close> matches, \<open>p_\<close> players, \<open>pf_\<close> player_match_performance, \<open>ts_\<close>
  team_statistics), because several tables share column names. A nullable column is an
  \<open>option\<close> (\<open>None\<close> is NULL). Columns that no modelled statement reads or writes are
  left out (for example \<open>batting_style\<close>, \<open>capacity\<close> and the timestamps of the other
  tables); \<open>matches.created_at\<close> is kept, since replacing a row resets it. Foreign keys
  are declared but not enforced: the code never turns \<open>PRAGMA foreign_keys\<close> on.
\<close>

record team_row =
  t_team_id :: int
  t_team_name :: string
  t_team_sname :: "string option"
  t_country :: "string option"

record venue_row =
  v_venue_id :: int
  v_venue_name :: string
  v_city :: "string option"

record series_row =
  s_series_id :: int
  s_series_name :: string

record match_row =
  m_match_id :: int
  m_match_desc :: "string option"
  m_match_format :: "string option"
  m_match_date :: "string option"
  m_series_id :: "int option"
  m_team1_id :: "int option"
  m_team2_id :: "int option"
  m_venue_id :: "int option"
  m_toss_winner_id :: "int option"
  m_toss_decision :: "string option"
  m_match_winner_id :: "int option"
  m_victory_margin :: "int option"
  m_victory_type :: "string option"
  m_match_status :: "string option"
  m_created_at :: nat

record player_row =
  p_player_id :: int
  p_player_name :: string
  p_team_id :: "int option"
  p_role :: "string option"
  p_matches_played :: "int option"
  p_runs_scored :: "int option"
  p_wickets_taken :: "int option"
  p_batting_average :: "rat option"
  p_strike_rate :: "rat option"
  p_player_key :: "string option"

text \<open>
  The statistics columns of a performance row are \<open>DEFAULT 0\<close> and every writer gives
  them a value, so they are not nullable here; \<open>team_id\<close>, \<open>batting_order\<close>,
  \<open>out_desc\<close> and \<open>player_key\<close> can be NULL.
\<close>

record perf_row =
  pf_performance_id :: int
  pf_player_id :: int
  pf_match_id :: int
  pf_team_id :: "int option"
  pf_innings_number :: int
  pf_batting_order :: "int option"
  pf_runs_scored :: int
  pf_balls_faced :: int
  pf_strike_rate :: rat
  pf_fours :: int
  pf_sixes :: int
  pf_overs_bowled :: rat
  pf_wickets_taken :: int
  pf_runs_conceded :: int
  pf_economy_rate :: rat
  pf_maidens :: int
  pf_out_desc :: "string option"
  pf_player_key :: "string option"

record team_stat_row =
  ts_stat_id :: int
  ts_team_id :: "int option"
  ts_matches_played :: int
  ts_matches_won :: int
  ts_matches_lost :: int
  ts_matches_drawn :: int
  ts_matches_tied :: int

record db =
  teams :: "team_row list"
  venues :: "venue_row list"
  series :: "series_row list"
  matches :: "match_row list"
  players :: "player_row list"
  player_match_performance :: "perf_row list"
  team_statistics :: "team_stat_row list"

definition empty_db :: db where
  "empty_db =
     \<lparr>teams = [], venues = [], series = [], matches = [], players = [],
      player_match_performance = [], team_statistics = []\<rparr>"

text \<open>
  The rowid SQLite gives a row inserted without its \<open>INTEGER PRIMARY KEY\<close>: one more than
  the largest in the table, 1 in an empty table.
\<close>

definition next_rowid :: "int list \<Rightarrow> int" where
  "next_rowid ids = (case ids of [] \<Rightarrow> 1 | x # xs \<Rightarrow> fold max xs x + 1)"

text \<open>\<open>SUM\<close> over the selected rows: NULL when there is none.\<close>

definition sql_sum :: "int list \<Rightarrow> int option" where
  "sql_sum xs = (if xs = [] then None else Some (sum_list xs))"

section \<open>Match Ingestor (\<open>store_match_data\<close>)\<close>








definition get_or :: "'a option \<Rightarrow> 'a \<Rightarrow> 'a" where
  "get_or v d = (case v of None \<Rightarrow> d | Some x \<Rightarrow> x)"







section \<open>Aggregator: player statistics (\<open>update_player_statistics\<close>)\<close>

















section \<open>Aggregator: team statistics (\<open>update_team_statistics\<close>)\<close>

text \<open>
  The rows of \<open>WHERE (team1_id = ? OR team2_id = ?) AND match_status = 'Completed'\<close>. A
  comparison with NULL is not true, which is what comparing the \<open>option\<close> with \<open>Some\<close>
  says.
\<close>

definition completed_matches_of :: "int \<Rightarrow> db \<Rightarrow> match_row list" where
  "completed_matches_of team_id cursor =
     filter (\<lambda>m. (m_team1_id m = Some team_id \<or> m_team2_id m = Some team_id) \<and>
                  m_match_status m = Some ''Completed'') (matches cursor)"

text \<open>
  The one row the SELECT returns: \<open>COUNT(*)\<close> and
  \<open>SUM(CASE WHEN match_winner_id = ? THEN 1 ELSE 0 END)\<close>.
\<close>

definition team_query :: "int \<Rightarrow> db \<Rightarrow> int option \<times> int option" where
  "team_query team_id cursor =
     (let rows = completed_matches_of team_id cursor
      in (Some (int (length rows)),
          sql_sum (map (\<lambda>m. if m_match_winner_id m = Some team_id then 1 else 0) rows)))"

text \<open>
  \<open>INSERT OR REPLACE INTO team_statistics (team_id, matches_played, matches_won,
  matches_lost)\<close>. The only uniqueness constraint of the table is its primary key
  \<open>stat_id\<close>, which the statement leaves to SQLite; \<open>team_id\<close> is an ordinary column.
  The rows in conflict with the new row on \<open>stat_id\<close> are deleted and the new row is
  inserted, with \<open>matches_drawn\<close> and \<open>matches_tied\<close> at their default 0.
\<close>

definition insert_or_replace_team_statistics :: "int \<Rightarrow> int \<Rightarrow> int \<Rightarrow> int \<Rightarrow> db \<Rightarrow> db" where
  "insert_or_replace_team_statistics team_id matches_played matches_won matches_lost cursor =
     (let stat_id = next_rowid (map ts_stat_id (team_statistics cursor))
      in cursor\<lparr>team_statistics :=
           filter (\<lambda>r. ts_stat_id r \<noteq> stat_id) (team_statistics cursor) @
           [\<lparr>ts_stat_id = stat_id, ts_team_id = Some team_id,
             ts_matches_played = matches_played, ts_matches_won = matches_won,
             ts_matches_lost = matches_lost, ts_matches_drawn = 0, ts_matches_tied = 0\<rparr>]\<rparr>)"

text \<open>The body of the loop over the teams, for one team.\<close>

definition team_statistics_step :: "team_row \<Rightarrow> db \<Rightarrow> db" where
  "team_statistics_step team cursor =
     (let team_id = t_team_id team;
          result = team_query team_id cursor;
          matches_played = (case fst result of None \<Rightarrow> 0 | Some n \<Rightarrow> n);
          matches_won = (case snd result of None \<Rightarrow> 0 | Some n \<Rightarrow> n);
          matches_lost = matches_played - matches_won
      in insert_or_replace_team_statistics team_id matches_played matches_won matches_lost cursor)"

text \<open>The method: the teams are fetched once, then the loop runs over that list.\<close>

definition update_team_statistics :: "db \<Rightarrow> db" where
  "update_team_statistics cursor = fold team_statistics_step (teams cursor) cursor"

text \<open>The four columns the INSERT gives.\<close>

definition stat_columns :: "team_stat_row \<Rightarrow> int option \<times> int \<times> int \<times> int" where
  "stat_columns r = (ts_team_id r, ts_matches_played r, ts_matches_won r, ts_matches_lost r)"

text \<open>
  A store with two teams and three matches between them: one completed and won by
  team 1, one completed with no winner recorded, one live.
\<close>

definition sample_match :: "int \<Rightarrow> string \<Rightarrow> int option \<Rightarrow> match_row" where
  "sample_match mid status winner =
     \<lparr>m_match_id = mid, m_match_desc = None, m_match_format = None, m_match_date = None,
      m_series_id = None, m_team1_id = Some 1, m_team2_id = Some 2, m_venue_id = None,
      m_toss_winner_id = None, m_toss_decision = None, m_match_winner_id = winner,
      m_victory_margin = None, m_victory_type = None, m_match_status = Some status,
      m_created_at = 0\<rparr>"

definition sample_db :: db where
  "sample_db =
     empty_db\<lparr>teams :=
       [\<lparr>t_team_id = 1, t_team_name = ''India'', t_team_sname = Some ''IND'', t_country = None\<rparr>,
        \<lparr>t_team_id = 2, t_team_name = ''Australia'', t_team_sname = Some ''AUS'', t_country = None\<rparr>],
      matches :=
       [sample_match 101 ''Completed'' (Some 1),
        sample_match 102 ''Completed'' None,
        sample_match 103 ''Live'' None]\<rparr>"

section \<open>Query Facade write path (\<open>execute_update\<close>)\<close>








section \<open>Scorecard Ingestor (\<open>store_scorecard_data_fixed\<close>)\<close>

text \<open>
  The scorecard payload. The values of \<open>batsmenData\<close> and \<open>bowlersData\<close> are tested with
  \<open>isinstance(..., dict)\<close>; the two maps are association lists in the order the JSON
  object gives.
\<close>

datatype 'a json_value = NotDict | Dict 'a

record batsman_data =
  batName :: "string option"
  batOrder :: "int option"
  runs :: "int option"
  balls :: "int option"
  strikeRate :: "rat option"
  fours :: "int option"
  sixes :: "int option"
  outDesc :: "string option"

record bowler_data =
  bowlName :: "string option"
  overs :: "rat option"
  wickets :: "int option"
  bowl_runs :: "int option"
  economy :: "rat option"
  maidens :: "int option"

record bat_team_details =
  batTeamId :: "int option"
  batsmenData :: "(string \<times> batsman_data json_value) list option"

record bowl_team_details =
  bowlTeamId :: "int option"
  bowlersData :: "(string \<times> bowler_data json_value) list option"

record innings_data =
  batTeamDetails :: "bat_team_details option"
  bowlTeamDetails :: "bowl_team_details option"

record scorecard_data =
  scoreCard :: "innings_data list option"

text \<open>What the method threads through its loops.\<close>

record ingest_state =
  st_cursor :: db
  st_self :: fetcher
  st_players_added :: nat

text \<open>
  \<open>INSERT OR IGNORE INTO players (player_id, player_name, team_id, role, player_key)\<close>:
  dropped when the primary key is already there; the aggregates take their defaults.
\<close>

definition insert_or_ignore_player ::
  "int \<Rightarrow> string \<Rightarrow> int option \<Rightarrow> string \<Rightarrow> string \<Rightarrow> db \<Rightarrow> db" where
  "insert_or_ignore_player pid name team_id role key cursor =
     (if \<exists>r \<in> set (players cursor). p_player_id r = pid then cursor
      else cursor\<lparr>players := players cursor @
             [\<lparr>p_player_id = pid, p_player_name = name, p_team_id = team_id,
               p_role = Some role, p_matches_played = Some 0, p_runs_scored = Some 0,
               p_wickets_taken = Some 0, p_batting_average = Some 0, p_strike_rate = Some 0,
               p_player_key = Some key\<rparr>]\<rparr>)"

text \<open>The rows of a performance triple (match_id, player_id, innings_number).\<close>

definition same_triple :: "int \<Rightarrow> int \<Rightarrow> int \<Rightarrow> perf_row \<Rightarrow> bool" where
  "same_triple match_id player_id innings_num r =
     (pf_match_id r = match_id \<and> pf_player_id r = player_id \<and> pf_innings_number r = innings_num)"

text \<open>
  The batting statement, \<open>INSERT INTO player_match_performance (...) VALUES (...) ON
  CONFLICT(match_id, player_id, innings_number) DO UPDATE SET\<close> the six batting columns
  from the new values: a row of the same triple has its batting columns overwritten,
  otherwise the new row is inserted.
\<close>

definition upsert_batting :: "perf_row \<Rightarrow> db \<Rightarrow> db" where
  "upsert_batting excluded cursor =
     (let hit = same_triple (pf_match_id excluded) (pf_player_id excluded)
                  (pf_innings_number excluded)
      in if \<exists>r \<in> set (player_match_performance cursor). hit r
         then cursor\<lparr>player_match_performance :=
                map (\<lambda>r. if hit r
                          then r\<lparr>pf_runs_scored := pf_runs_scored excluded,
                                 pf_balls_faced := pf_balls_faced excluded,
                                 pf_strike_rate := pf_strike_rate excluded,
                                 pf_fours := pf_fours excluded,
                                 pf_sixes := pf_sixes excluded,
                                 pf_out_desc := pf_out_desc excluded\<rparr>
                          else r)
                  (player_match_performance cursor)\<rparr>
         else cursor\<lparr>player_match_performance := player_match_performance cursor @ [excluded]\<rparr>)"

text \<open>
  The two bowling statements: \<open>INSERT OR IGNORE\<close> of a bare row for the triple, then
  \<open>UPDATE ... SET\<close> the five bowling columns \<open>WHERE\<close> the triple matches.
\<close>

definition insert_or_ignore_performance :: "perf_row \<Rightarrow> db \<Rightarrow> db" where
  "insert_or_ignore_performance row cursor =
     (if \<exists>r \<in> set (player_match_performance cursor).
           same_triple (pf_match_id row) (pf_player_id row) (pf_innings_number row) r
      then cursor
      else cursor\<lparr>player_match_performance := player_match_performance cursor @ [row]\<rparr>)"

definition update_bowling ::
  "rat \<Rightarrow> int \<Rightarrow> int \<Rightarrow> rat \<Rightarrow> int \<Rightarrow> int \<Rightarrow> int \<Rightarrow> int \<Rightarrow> db \<Rightarrow> db" where
  "update_bowling ov wk rc ec md player_id match_id innings_num cursor =
     cursor\<lparr>player_match_performance :=
       map (\<lambda>r. if same_triple match_id player_id innings_num r
                 then r\<lparr>pf_overs_bowled := ov, pf_wickets_taken := wk, pf_runs_conceded := rc,
                        pf_economy_rate := ec, pf_maidens := md\<rparr>
                 else r)
         (player_match_performance cursor)\<rparr>"

text \<open>A performance row with every column but the given ones at its default.\<close>

definition bare_performance :: "int \<Rightarrow> int \<Rightarrow> int \<Rightarrow> int option \<Rightarrow> int \<Rightarrow> string \<Rightarrow> perf_row" where
  "bare_performance perf_id player_id match_id team_id innings_num key =
     \<lparr>pf_performance_id = perf_id, pf_player_id = player_id, pf_match_id = match_id,
      pf_team_id = team_id, pf_innings_number = innings_num, pf_batting_order = None,
      pf_runs_scored = 0, pf_balls_faced = 0, pf_strike_rate = 0, pf_fours = 0, pf_sixes = 0,
      pf_overs_bowled = 0, pf_wickets_taken = 0, pf_runs_conceded = 0, pf_economy_rate = 0,
      pf_maidens = 0, pf_out_desc = None, pf_player_key = Some key\<rparr>"

text \<open>
  Name resolution at the batting statement. The parameter tuple of that statement
  (source line 699) reads the name \<open>team_id\<close>. The names bound there are the method's
  parameters and the locals assigned so far (the bowling locals too, from an earlier
  innings), and the module's globals; Python raises \<open>NameError\<close> for any other name.
\<close>

datatype py_value = IntVal "int option" | Other

definition other_names :: "string list" where
  "other_names =
     [''self'', ''cursor'', ''scorecard_data'', ''innings_list'', ''innings_data'',
      ''bat_team_details'', ''batsmen_data'', ''player_key'', ''player_data'', ''player_name'',
      ''bowl_team_details'', ''bowlers_data'', ''bowler_key'', ''bowler_data'', ''bowler_name'',
      ''requests'', ''sqlite3'', ''pd'', ''json'', ''time'', ''os'', ''datetime'', ''timedelta'',
      ''logging'', ''Dict'', ''List'', ''Optional'', ''Any'', ''sys'', ''tqdm'', ''hashlib'',
      ''RealTimeFormatter'', ''logger'', ''handler'', ''CricbuzzDataFetcher'', ''main'']"

definition batting_scope :: "int \<Rightarrow> int \<Rightarrow> int option \<Rightarrow> int \<Rightarrow> nat \<Rightarrow> (string \<times> py_value) list" where
  "batting_scope match_id innings_num bat_team_id numeric_player_id added =
     [(''match_id'', IntVal (Some match_id)),
      (''innings_num'', IntVal (Some innings_num)),
      (''bat_team_id'', IntVal bat_team_id),
      (''numeric_player_id'', IntVal (Some numeric_player_id)),
      (''players_added'', IntVal (Some (int added))),
      (''bowl_team_id'', IntVal None),
      (''numeric_bowler_id'', IntVal None)] @
     map (\<lambda>n. (n, Other)) other_names"

definition lookup_name :: "(string \<times> py_value) list \<Rightarrow> string \<Rightarrow> py_error + py_value" where
  "lookup_name scope name =
     (case map_of scope name of None \<Rightarrow> Inl (NameError name) | Some v \<Rightarrow> Inr v)"

text \<open>
  One entry of \<open>batsmenData\<close>: the body of the batting loop. An exception leaves the
  loop with the state reached so far (the player row is already written).
\<close>

definition store_batsman ::
  "(string \<Rightarrow> 128 word) \<Rightarrow> int \<Rightarrow> int \<Rightarrow> int option \<Rightarrow> string \<times> batsman_data json_value \<Rightarrow>
   ingest_state \<Rightarrow> py_error option \<times> ingest_state" where
  "store_batsman md5 match_id innings_num bat_team_id kv st =
     (case snd kv of
        NotDict \<Rightarrow> (None, st)
      | Dict player_data \<Rightarrow>
          (let player_key = fst kv;
               player_name = get_or (batName player_data) (''Player_'' @ player_key)
           in (case generate_player_id md5 (st_self st) player_key player_name bat_team_id of
                 Inl e \<Rightarrow> (Some e, st)
               | Inr numeric_player_id \<Rightarrow>
                   (let c1 = insert_or_ignore_player numeric_player_id player_name bat_team_id
                               ''Batsman'' player_key (st_cursor st);
                        st1 = st\<lparr>st_cursor := c1\<rparr>
                    in (case lookup_name
                               (batting_scope match_id innings_num bat_team_id numeric_player_id
                                  (st_players_added st)) ''team_id'' of
                          Inl e \<Rightarrow> (Some e, st1)
                        | Inr Other \<Rightarrow> (Some InterfaceError, st1)
                        | Inr (IntVal team_id) \<Rightarrow>
                            (let excluded =
                                   (bare_performance
                                      (next_rowid
                                         (map pf_performance_id (player_match_performance c1)))
                                      numeric_player_id match_id team_id innings_num player_key)
                                   \<lparr>pf_batting_order := Some (get_or (batOrder player_data) 0),
                                    pf_runs_scored := get_or (runs player_data) 0,
                                    pf_balls_faced := get_or (balls player_data) 0,
                                    pf_strike_rate := get_or (strikeRate player_data) 0,
                                    pf_fours := get_or (fours player_data) 0,
                                    pf_sixes := get_or (sixes player_data) 0,
                                    pf_out_desc := Some (get_or (outDesc player_data) [])\<rparr>;
                                 self1 = (st_self st)
                                   \<lparr>performances_stored := performances_stored (st_self st) + 1,
                                    players_stored := players_stored (st_self st) + 1\<rparr>
                             in (None, st\<lparr>st_cursor := upsert_batting excluded c1,
                                           st_self := self1,
                                           st_players_added := st_players_added st + 1\<rparr>)))))))"

fun batsmen_loop ::
  "(string \<Rightarrow> 128 word) \<Rightarrow> int \<Rightarrow> int \<Rightarrow> int option \<Rightarrow> (string \<times> batsman_data json_value) list \<Rightarrow>
   ingest_state \<Rightarrow> py_error option \<times> ingest_state" where
  "batsmen_loop md5 match_id innings_num bat_team_id [] st = (None, st)"
| "batsmen_loop md5 match_id innings_num bat_team_id (kv # rest) st =
     (case store_batsman md5 match_id innings_num bat_team_id kv st of
        (Some e, st') \<Rightarrow> (Some e, st')
      | (None, st') \<Rightarrow> batsmen_loop md5 match_id innings_num bat_team_id rest st')"

text \<open>One entry of \<open>bowlersData\<close>: the body of the bowling loop.\<close>

definition store_bowler ::
  "(string \<Rightarrow> 128 word) \<Rightarrow> int \<Rightarrow> int \<Rightarrow> int option \<Rightarrow> string \<times> bowler_data json_value \<Rightarrow>
   ingest_state \<Rightarrow> py_error option \<times> ingest_state" where
  "store_bowler md5 match_id innings_num bowl_team_id kv st =
     (case snd kv of
        NotDict \<Rightarrow> (None, st)
      | Dict bowler_data \<Rightarrow>
          (let bowler_key = fst kv;
               bowler_name = get_or (bowlName bowler_data) (''Bowler_'' @ bowler_key)
           in (case generate_player_id md5 (st_self st) bowler_key bowler_name bowl_team_id of
                 Inl e \<Rightarrow> (Some e, st)
               | Inr numeric_bowler_id \<Rightarrow>
                   (let c1 = insert_or_ignore_player numeric_bowler_id bowler_name bowl_team_id
                               ''Bowler'' bowler_key (st_cursor st);
                        c2 = insert_or_ignore_performance
                               (bare_performance
                                  (next_rowid (map pf_performance_id (player_match_performance c1)))
                                  numeric_bowler_id match_id bowl_team_id innings_num bowler_key) c1;
                        c3 = update_bowling
                               (get_or (overs bowler_data) 0) (get_or (wickets bowler_data) 0)
                               (get_or (bowl_runs bowler_data) 0) (get_or (economy bowler_data) 0)
                               (get_or (maidens bowler_data) 0)
                               numeric_bowler_id match_id innings_num c2;
                        self1 = (st_self st)
                          \<lparr>performances_stored := performances_stored (st_self st) + 1\<rparr>
                    in (None, st\<lparr>st_cursor := c3, st_self := self1,
                                  st_players_added := st_players_added st + 1\<rparr>)))))"

fun bowlers_loop ::
  "(string \<Rightarrow> 128 word) \<Rightarrow> int \<Rightarrow> int \<Rightarrow> int option \<Rightarrow> (string \<times> bowler_data json_value) list \<Rightarrow>
   ingest_state \<Rightarrow> py_error option \<times> ingest_state" where
  "bowlers_loop md5 match_id innings_num bowl_team_id [] st = (None, st)"
| "bowlers_loop md5 match_id innings_num bowl_team_id (kv # rest) st =
     (case store_bowler md5 match_id innings_num bowl_team_id kv st of
        (Some e, st') \<Rightarrow> (Some e, st')
      | (None, st') \<Rightarrow> bowlers_loop md5 match_id innings_num bowl_team_id rest st')"

text \<open>
  One innings: without \<open>batTeamDetails\<close> the innings is skipped (\<open>continue\<close>), bowling
  block included; otherwise the batting block runs first, then the bowling block.
\<close>

definition store_innings ::
  "(string \<Rightarrow> 128 word) \<Rightarrow> int \<Rightarrow> int \<Rightarrow> innings_data \<Rightarrow> ingest_state \<Rightarrow>
   py_error option \<times> ingest_state" where
  "store_innings md5 match_id innings_num innings st =
     (case batTeamDetails innings of
        None \<Rightarrow> (None, st)
      | Some bat_team \<Rightarrow>
          (case (case batsmenData bat_team of
                   None \<Rightarrow> (None, st)
                 | Some batsmen \<Rightarrow>
                     batsmen_loop md5 match_id innings_num (batTeamId bat_team) batsmen st) of
             (Some e, st1) \<Rightarrow> (Some e, st1)
           | (None, st1) \<Rightarrow>
               (case bowlTeamDetails innings of
                  None \<Rightarrow> (None, st1)
                | Some bowl_team \<Rightarrow>
                    (case bowlersData bowl_team of
                       None \<Rightarrow> (None, st1)
                     | Some bowlers \<Rightarrow>
                         bowlers_loop md5 match_id innings_num (bowlTeamId bowl_team)
                           bowlers st1))))"

fun innings_loop ::
  "(string \<Rightarrow> 128 word) \<Rightarrow> int \<Rightarrow> int \<Rightarrow> innings_data list \<Rightarrow> ingest_state \<Rightarrow>
   py_error option \<times> ingest_state" where
  "innings_loop md5 match_id innings_num [] st = (None, st)"
| "innings_loop md5 match_id innings_num (innings # rest) st =
     (case store_innings md5 match_id innings_num innings st of
        (Some e, st') \<Rightarrow> (Some e, st')
      | (None, st') \<Rightarrow> innings_loop md5 match_id (innings_num + 1) rest st')"

text \<open>
  The method: the number it returns, and the cursor and the fetcher as it leaves them.
  \<open>except Exception\<close> returns 0 and undoes nothing; the caller commits the cursor.
\<close>

definition store_scorecard_data_fixed ::
  "(string \<Rightarrow> 128 word) \<Rightarrow> fetcher \<Rightarrow> db \<Rightarrow> int \<Rightarrow> scorecard_data \<Rightarrow> nat \<times> db \<times> fetcher" where
  "store_scorecard_data_fixed md5 self cursor match_id sd =
     (case scoreCard sd of
        None \<Rightarrow> (0, cursor, self)
      | Some innings_list \<Rightarrow>
          (case innings_loop md5 match_id 1 innings_list
                  \<lparr>st_cursor = cursor, st_self = self, st_players_added = 0\<rparr> of
             (Some e, st) \<Rightarrow> (0, st_cursor st, st_self st)
           | (None, st) \<Rightarrow> (st_players_added st, st_cursor st, st_self st)))"

text \<open>
  A scorecard of one innings in which the player with key "p1" is in the batting block
  and in the bowling block, and the same scorecard without its batting block.
\<close>

definition rounder_bowling :: bowl_team_details where
  "rounder_bowling =
     \<lparr>bowlTeamId = Some 10,
      bowlersData = Some [(''p1'', Dict \<lparr>bowlName = Some ''A Rounder'', overs = Some 4,
         wickets = Some 2, bowl_runs = Some 30, economy = Some (15 / 2), maidens = Some 0\<rparr>)]\<rparr>"

definition rounder_card :: scorecard_data where
  "rounder_card =
     \<lparr>scoreCard = Some
        [\<lparr>batTeamDetails = Some
            \<lparr>batTeamId = Some 10,
             batsmenData = Some [(''p1'', Dict \<lparr>batName = Some ''A Rounder'', batOrder = Some 1,
                runs = Some 50, balls = Some 40, strikeRate = Some 125, fours = Some 5,
                sixes = Some 1, outDesc = Some ''not out''\<rparr>)]\<rparr>,
          bowlTeamDetails = Some rounder_bowling\<rparr>]\<rparr>"

definition bowling_only_card :: scorecard_data where
  "bowling_only_card =
     \<lparr>scoreCard = Some
        [\<lparr>batTeamDetails = Some \<lparr>batTeamId = Some 10, batsmenData = None\<rparr>,
          bowlTeamDetails = Some rounder_bowling\<rparr>]\<rparr>"

section \<open>Properties of the country back-fill\<close>

lemma starts_with_iff: "starts_with k s \<longleftrightarrow> (\<exists>ss. s = k @ ss)"
  by (induction k s rule: starts_with.induct) auto

lemma py_in_iff: "py_in k s \<longleftrightarrow> substring_of k s"
proof (induction s)
  case Nil
  show ?case by (auto simp: substring_of_def)
next
  case (Cons c cs)
  have "substring_of k (c # cs) \<longleftrightarrow> (\<exists>ss. c # cs = k @ ss) \<or> substring_of k cs"
    unfolding substring_of_def
  proof
    assume "\<exists>ps ss. c # cs = ps @ k @ ss"
    then obtain ps ss where e: "c # cs = ps @ k @ ss" by blast
    show "(\<exists>ss. c # cs = k @ ss) \<or> (\<exists>ps ss. cs = ps @ k @ ss)"
    proof (cases ps)
      case Nil
      with e show ?thesis by auto
    next
      case (Cons p ps')
      with e have "cs = ps' @ k @ ss" by simp
      then show ?thesis by blast
    qed
  next
    assume "(\<exists>ss. c # cs = k @ ss) \<or> (\<exists>ps ss. cs = ps @ k @ ss)"
    then show "\<exists>ps ss. c # cs = ps @ k @ ss"
    proof
      assume "\<exists>ss. c # cs = k @ ss"
      then obtain ss where "c # cs = [] @ k @ ss" by auto
      then show ?thesis by blast
    next
      assume "\<exists>ps ss. cs = ps @ k @ ss"
      then obtain ps ss where "c # cs = (c # ps) @ k @ ss" by auto
      then show ?thesis by blast
    qed
  qed
  with Cons show ?case by (simp add: starts_with_iff)
qed

lemma country_loop_none:
  "(\<forall>kv \<in> set m. \<not> substring_of (fst kv) s) \<Longrightarrow> country_loop m s = None"
  by (induction m s rule: country_loop.induct) (auto simp: py_in_iff)

lemma country_loop_first:
  "i < length m \<Longrightarrow> substring_of (fst (m ! i)) s \<Longrightarrow>
   (\<forall>j < i. \<not> substring_of (fst (m ! j)) s) \<Longrightarrow> country_loop m s = Some (snd (m ! i))"
proof (induction m s arbitrary: i rule: country_loop.induct)
  case (1 team_lower)
  then show ?case by simp
next
  case (2 key val rest team_lower)
  show ?case
  proof (cases i)
    case 0
    with 2 show ?thesis by (simp add: py_in_iff)
  next
    case (Suc i')
    from 2(4) Suc have nk: "\<not> py_in key team_lower"
      by (auto simp: py_in_iff)
    have "\<forall>j < i'. \<not> substring_of (fst (rest ! j)) team_lower"
      using 2(4) Suc by auto
    with 2(1)[OF nk, of i'] 2(2,3) Suc nk show ?thesis by simp
  qed
qed

text \<open>
  C9. The country of a team name is found by substring lookup of the lower-cased name
  against the fixed table: the value of the first entry (in table order) whose key is a
  substring wins, a name that no key matches is returned verbatim, and
  "Royal Pakistan XI" resolves to "Pakistan".
\<close>

theorem determine_country_first_match_wins:
  "(\<forall>i < length country_mapping.
      substring_of (fst (country_mapping ! i)) (lower team_name) \<and>
      (\<forall>j < i. \<not> substring_of (fst (country_mapping ! j)) (lower team_name))
      \<longrightarrow> determine_country_from_team_name team_name = snd (country_mapping ! i))
   \<and> ((\<forall>kv \<in> set country_mapping. \<not> substring_of (fst kv) (lower team_name))
      \<longrightarrow> determine_country_from_team_name team_name = team_name)
   \<and> determine_country_from_team_name ''Royal Pakistan XI'' = ''Pakistan''"
proof (intro conjI allI impI)
  fix i
  assume "i < length country_mapping"
    and "substring_of (fst (country_mapping ! i)) (lower team_name) \<and>
         (\<forall>j < i. \<not> substring_of (fst (country_mapping ! j)) (lower team_name))"
  then have "country_loop country_mapping (lower team_name) = Some (snd (country_mapping ! i))"
    using country_loop_first by blast
  then show "determine_country_from_team_name team_name = snd (country_mapping ! i)"
    by (simp add: determine_country_from_team_name_def)
next
  assume "\<forall>kv \<in> set country_mapping. \<not> substring_of (fst kv) (lower team_name)"
  then have "country_loop country_mapping (lower team_name) = None"
    by (rule country_loop_none)
  then show "determine_country_from_team_name team_name = team_name"
    by (simp add: determine_country_from_team_name_def)
next
  show "determine_country_from_team_name ''Royal Pakistan XI'' = ''Pakistan''"
    by code_simp
qed

theorem determine_country_first_match_wins_witness:
  "3 < length country_mapping \<and>
   substring_of (fst (country_mapping ! 3)) (lower ''Royal Pakistan XI'') \<and>
   \<not> substring_of (fst (country_mapping ! 0)) (lower ''Royal Pakistan XI'') \<and>
   \<not> substring_of (fst (country_mapping ! 1)) (lower ''Royal Pakistan XI'') \<and>
   \<not> substring_of (fst (country_mapping ! 2)) (lower ''Royal Pakistan XI'') \<and>
   determine_country_from_team_name ''Royal Pakistan XI'' = snd (country_mapping ! 3) \<and>
   snd (country_mapping ! 3) = ''Pakistan'' \<and>
   list_all (\<lambda>kv. \<not> substring_of (fst kv) (lower ''Nepal'')) country_mapping \<and>
   determine_country_from_team_name ''Nepal'' = ''Nepal''"
proof -
  have len: "3 < length country_mapping"
    by (simp add: country_mapping_def)
  have hit: "py_in (fst (country_mapping ! 3)) (lower ''Royal Pakistan XI'')"
    by code_simp
  have m0: "\<not> py_in (fst (country_mapping ! 0)) (lower ''Royal Pakistan XI'')"
    by code_simp
  have m1: "\<not> py_in (fst (country_mapping ! 1)) (lower ''Royal Pakistan XI'')"
    by code_simp
  have m2: "\<not> py_in (fst (country_mapping ! 2)) (lower ''Royal Pakistan XI'')"
    by code_simp
  have earlier: "\<forall>j < 3. \<not> substring_of (fst (country_mapping ! j)) (lower ''Royal Pakistan XI'')"
  proof (intro allI impI)
    fix j :: nat
    assume "j < 3"
    then have "j = 0 \<or> j = 1 \<or> j = 2" by arith
    with m0 m1 m2 show "\<not> substring_of (fst (country_mapping ! j)) (lower ''Royal Pakistan XI'')"
      by (auto simp: py_in_iff)
  qed
  have val: "snd (country_mapping ! 3) = ''Pakistan''"
    by (simp add: country_mapping_def)
  have none: "\<forall>kv \<in> set country_mapping. \<not> py_in (fst kv) (lower ''Nepal'')"
    by code_simp
  then have none': "\<forall>kv \<in> set country_mapping. \<not> substring_of (fst kv) (lower ''Nepal'')"
    by (simp add: py_in_iff)
  from hit have hit': "substring_of (fst (country_mapping ! 3)) (lower ''Royal Pakistan XI'')"
    by (simp add: py_in_iff)
  from determine_country_first_match_wins [of "''Royal Pakistan XI''"] len hit' earlier
  have r1: "determine_country_from_team_name ''Royal Pakistan XI'' = snd (country_mapping ! 3)"
    by blast
  from determine_country_first_match_wins [of "''Nepal''"] none'
  have r2: "determine_country_from_team_name ''Nepal'' = ''Nepal''"
    by blast
  from none' have none'': "list_all (\<lambda>kv. \<not> substring_of (fst kv) (lower ''Nepal'')) country_mapping"
    by (simp add: list_all_iff)
  from m0 m1 m2 have
    "\<not> substring_of (fst (country_mapping ! 0)) (lower ''Royal Pakistan XI'')"
    "\<not> substring_of (fst (country_mapping ! 1)) (lower ''Royal Pakistan XI'')"
    "\<not> substring_of (fst (country_mapping ! 2)) (lower ''Royal Pakistan XI'')"
    by (simp_all add: py_in_iff)
  with len hit' r1 val none'' r2 show ?thesis by blast
qed

section \<open>Properties of the Identity Resolver\<close>

lemma hex_val_table:
  "\<forall>k \<in> set [0..<16]. hex_val (''0123456789abcdef'' ! k) = Some k"
  by code_simp

lemma hex_val_hex_char: "hex_val (hex_char n) = Some (n mod 16)"
proof -
  have "n mod 16 \<in> set [0..<16]" by simp
  with hex_val_table show ?thesis
    unfolding hex_char_def by blast
qed

lemma int16_loop_digits:
  "\<forall>c \<in> set s. \<exists>v. hex_val c = Some v \<Longrightarrow> 0 \<le> acc \<Longrightarrow> \<exists>n. int16_loop acc s = Inr n \<and> 0 \<le> n"
proof (induction s arbitrary: acc)
  case Nil
  then show ?case by simp
next
  case (Cons c cs)
  from Cons.prems obtain v where v: "hex_val c = Some v" by auto
  have "0 \<le> 16 * acc + int v" using Cons.prems(2) by simp
  with Cons.IH [of "16 * acc + int v"] Cons.prems(1) v show ?case by simp
qed

lemma hexdigest_digits: "\<forall>c \<in> set (hexdigest d). \<exists>v. hex_val c = Some v"
  by (auto simp: hexdigest_def hex_val_hex_char)

lemma length_hexdigest: "length (hexdigest d) = 32"
  by (simp add: hexdigest_def)

lemma int16_digest_prefix: "\<exists>n. int16 (take 8 (hexdigest d)) = Inr n \<and> 0 \<le> n"
proof -
  have ne: "take 8 (hexdigest d) \<noteq> []"
    using length_hexdigest [of d] by auto
  have "\<forall>c \<in> set (take 8 (hexdigest d)). \<exists>v. hex_val c = Some v"
    using hexdigest_digits [of d] by (meson in_set_takeD)
  from int16_loop_digits [OF this, of 0] ne show ?thesis
    by (simp add: int16_def)
qed

text \<open>
  C2. \<open>generate_player_id\<close> is a pure function of (player_key, player_name, team_id):
  whatever the state of the fetcher object, it returns (never raises) the same integer
  for the same triple, and that integer lies between 1,000,000 and
  1,000,999,998 = (999,999,999 - 1) + 1,000,000.
\<close>

theorem generate_player_id_deterministic_bounded:
  "\<exists>n. generate_player_id md5 self player_key player_name team_id = Inr n \<and>
       generate_player_id md5 self' player_key player_name team_id = Inr n \<and>
       1000000 \<le> n \<and> n \<le> 1000999998"
proof -
  let ?d = "md5 (player_key @ ''_'' @ player_name @ ''_'' @ str_opt_int team_id)"
  obtain v where v: "int16 (take 8 (hexdigest ?d)) = Inr v"
    using int16_digest_prefix by blast
  have lo: "0 \<le> \<bar>v\<bar> mod 999999999" by simp
  have hi: "\<bar>v\<bar> mod 999999999 < 999999999" by simp
  from v lo hi show ?thesis
    by (simp add: generate_player_id_def)
qed

section \<open>Properties of the rate-limit retry\<close>

lemma make_api_request_returns:
  "\<exists>x self' w'. make_api_request (Suc frames) server (self, w) = (Inr x, self', w')"
  by (cases "make_api_request frames server
               (self\<lparr>api_calls := api_calls self + 1, failed_calls := failed_calls self + 1\<rparr>,
                w\<lparr>sent := sent w + 1, slept := slept w + 1 + 60\<rparr>)")
     (auto simp: Let_def split: response.splits option.splits sum.splits)

lemma make_api_request_not_limited:
  assumes "\<not> is_rate_limited (server (sent w))"
  shows "fst (make_api_request (Suc frames) server (self, w)) = Inr (final_result (server (sent w))) \<and>
         snd (snd (make_api_request (Suc frames) server (self, w))) =
           w\<lparr>sent := sent w + 1, slept := slept w + 1\<rparr>"
  using assms
  by (auto simp: is_rate_limited_def final_result_def Let_def
      split: response.splits option.splits)

lemma make_api_request_limited:
  assumes "is_rate_limited (server (sent w))"
  shows "make_api_request (Suc (Suc frames)) server (self, w) =
         make_api_request (Suc frames) server
           (self\<lparr>api_calls := api_calls self + 1, failed_calls := failed_calls self + 1\<rparr>,
            w\<lparr>sent := sent w + 1, slept := slept w + 1 + 60\<rparr>)"
proof -
  from assms obtain body where r: "server (sent w) = Response 429 body"
    by (auto simp: is_rate_limited_def split: response.splits)
  let ?self2 = "self\<lparr>api_calls := api_calls self + 1, failed_calls := failed_calls self + 1\<rparr>"
  let ?w2 = "w\<lparr>sent := sent w + 1, slept := slept w + 1 + 60\<rparr>"
  obtain x self3 w3 where
    inner: "make_api_request (Suc frames) server (?self2, ?w2) = (Inr x, self3, w3)"
    using make_api_request_returns by blast
  have "make_api_request (Suc (Suc frames)) server (self, w) =
        (case make_api_request (Suc frames) server (?self2, ?w2) of
           (Inl e, self3, w3) \<Rightarrow> (Inr None, self3\<lparr>failed_calls := failed_calls self3 + 1\<rparr>, w3)
         | (Inr r, self3, w3) \<Rightarrow> (Inr r, self3, w3))"
    using r by (subst make_api_request.simps(2)) (simp add: Let_def del: make_api_request.simps)
  with inner show ?thesis by simp
qed

lemma make_api_request_run:
  "k < frames \<Longrightarrow> (\<forall>i < k. is_rate_limited (server (sent w + i))) \<Longrightarrow>
   \<not> is_rate_limited (server (sent w + k)) \<Longrightarrow>
   fst (make_api_request frames server (self, w)) = Inr (final_result (server (sent w + k))) \<and>
   snd (snd (make_api_request frames server (self, w))) =
     w\<lparr>sent := sent w + k + 1, slept := slept w + 61 * k + 1\<rparr>"
proof (induction k arbitrary: frames self w)
  case 0
  then obtain f where f: "frames = Suc f" by (cases frames) auto
  from 0 have nl: "\<not> is_rate_limited (server (sent w))" by simp
  from make_api_request_not_limited [of server w f self, OF nl] show ?case
    unfolding f by simp
next
  case (Suc k)
  then obtain f where f: "frames = Suc (Suc f)" and kf: "k < Suc f"
    by (cases frames; cases "frames - 1") auto
  from Suc.prems(2) have lim: "is_rate_limited (server (sent w))"
    by (metis add_0_right zero_less_Suc)
  let ?self2 = "self\<lparr>api_calls := api_calls self + 1, failed_calls := failed_calls self + 1\<rparr>"
  let ?w2 = "w\<lparr>sent := sent w + 1, slept := slept w + 1 + 60\<rparr>"
  have step: "make_api_request frames server (self, w) =
              make_api_request (Suc f) server (?self2, ?w2)"
    unfolding f using lim by (rule make_api_request_limited)
  have a: "\<forall>i < k. is_rate_limited (server (sent ?w2 + i))"
  proof (intro allI impI)
    fix i assume "i < k"
    then have "Suc i < Suc k" by simp
    with Suc.prems(2) have "is_rate_limited (server (sent w + Suc i))" by blast
    then show "is_rate_limited (server (sent ?w2 + i))" by simp
  qed
  have b: "\<not> is_rate_limited (server (sent ?w2 + k))"
    using Suc.prems(3) by simp
  from Suc.IH [OF kf a b, of ?self2] show ?case
    unfolding step by simp
qed

text \<open>
  C7, as the code has it. A 429 response makes the caller sleep through the 60-second
  countdown and call itself again, and the new call treats a 429 the same way: when the
  server answers 429 to the next k requests and something else to the one after, and the
  stack has room for k + 1 frames, the call sends k + 1 requests, sleeps 61 k + 1
  seconds, and returns what the last response gives (its JSON for a 200, None otherwise).
  With k = 1 this is the single retry of the claim.
\<close>

theorem make_api_request_retries_every_rate_limit:
  assumes "k < frames"
    and "\<forall>i < k. is_rate_limited (server (sent w + i))"
    and "\<not> is_rate_limited (server (sent w + k))"
  shows "fst (make_api_request frames server (self, w)) = Inr (final_result (server (sent w + k))) \<and>
         sent (snd (snd (make_api_request frames server (self, w)))) = sent w + k + 1 \<and>
         slept (snd (snd (make_api_request frames server (self, w)))) = slept w + 61 * k + 1"
  using make_api_request_run [OF assms, of self] by simp

theorem make_api_request_retries_every_rate_limit_witness:
  "(2::nat) < 1000 \<and>
   is_rate_limited (busy_twice (sent fresh_world + 0)) \<and>
   is_rate_limited (busy_twice (sent fresh_world + 1)) \<and>
   \<not> is_rate_limited (busy_twice (sent fresh_world + 2)) \<and>
   fst (make_api_request 1000 busy_twice (fresh_fetcher, fresh_world)) = Inr (Some ()) \<and>
   sent (snd (snd (make_api_request 1000 busy_twice (fresh_fetcher, fresh_world)))) = 3 \<and>
   slept (snd (snd (make_api_request 1000 busy_twice (fresh_fetcher, fresh_world)))) = 123"
proof -
  have h1: "(2::nat) < 1000" by simp
  have h2: "\<forall>i < 2. is_rate_limited (busy_twice (sent fresh_world + i))"
    by (simp add: busy_twice_def is_rate_limited_def fresh_world_def)
  have h3: "\<not> is_rate_limited (busy_twice (sent fresh_world + 2))"
    by (simp add: busy_twice_def is_rate_limited_def fresh_world_def)
  have fr: "final_result (busy_twice (sent fresh_world + 2)) = Some ()"
    by (simp add: busy_twice_def final_result_def fresh_world_def)
  from make_api_request_retries_every_rate_limit [OF h1 h2 h3, of fresh_fetcher] fr h2 h3
  show ?thesis
    by (simp add: fresh_world_def)
qed

text \<open>
  The claim as stated, "at most two attempts before the call returns", fails when the
  server answers 429 twice in a row: the call sends three requests.
\<close>

theorem make_api_request_single_retry_counterexample:
  "\<not> sent (snd (snd (make_api_request 1000 busy_twice (fresh_fetcher, fresh_world)))) \<le> 2"
proof -
  have h1: "(2::nat) < 1000" by simp
  have h2: "\<forall>i < 2. is_rate_limited (busy_twice (sent fresh_world + i))"
    by (simp add: busy_twice_def is_rate_limited_def fresh_world_def)
  have h3: "\<not> is_rate_limited (busy_twice (sent fresh_world + 2))"
    by (simp add: busy_twice_def is_rate_limited_def fresh_world_def)
  from make_api_request_run [OF h1 h2 h3, of fresh_fetcher]
  have "sent (snd (snd (make_api_request 1000 busy_twice (fresh_fetcher, fresh_world)))) = 3"
    by (simp add: fresh_world_def)
  then show ?thesis by simp
qed

section \<open>Properties of the match write\<close>







section \<open>Properties of the player statistics\<close>












section \<open>Properties of the team statistics\<close>

lemma fold_max_ge: "x \<le> fold max xs (x::int) \<and> (\<forall>y \<in> set xs. y \<le> fold max xs x)"
proof (induction xs arbitrary: x)
  case Nil
  show ?case by simp
next
  case (Cons a xs)
  from Cons [of "max a x"] have
    m: "max a x \<le> fold max xs (max a x)" and r: "\<forall>y \<in> set xs. y \<le> fold max xs (max a x)"
    by simp_all
  from m have "x \<le> fold max xs (max a x)" "a \<le> fold max xs (max a x)" by simp_all
  with r show ?case by simp
qed

lemma next_rowid_fresh: "y \<in> set ids \<Longrightarrow> y < next_rowid ids"
proof (cases ids)
  case Nil
  assume "y \<in> set ids"
  with Nil show ?thesis by simp
next
  case (Cons x xs)
  assume "y \<in> set ids"
  with Cons fold_max_ge [where x = x and xs = xs] have "y \<le> fold max xs x" by auto
  with Cons show ?thesis by (simp add: next_rowid_def)
qed

lemma insert_or_replace_team_statistics_appends:
  "\<exists>row. team_statistics (insert_or_replace_team_statistics t p w l c) =
           team_statistics c @ [row] \<and> stat_columns row = (Some t, p, w, l)"
proof -
  have "filter (\<lambda>r. ts_stat_id r \<noteq> next_rowid (map ts_stat_id (team_statistics c)))
          (team_statistics c) = team_statistics c"
    using next_rowid_fresh [of _ "map ts_stat_id (team_statistics c)"]
    by (intro filter_True) force
  then show ?thesis
    by (simp add: insert_or_replace_team_statistics_def Let_def stat_columns_def)
qed

text \<open>What the loop body computes for a team, in terms of the matches table.\<close>

lemma sum_indicator:
  "sum_list (map (\<lambda>m. if P m then 1 else 0) ms) = int (length (filter P ms))"
  by (induction ms) auto

lemma length_filter_split:
  "int (length ms) - int (length (filter P ms)) = int (length (filter (\<lambda>m. \<not> P m) ms))"
  using sum_length_filter_compl [of P ms] by simp

lemma team_statistics_step_row:
  "\<exists>row. team_statistics (team_statistics_step team c) = team_statistics c @ [row] \<and>
         stat_columns row =
           (Some (t_team_id team),
            int (length (completed_matches_of (t_team_id team) c)),
            int (length (filter (\<lambda>m. m_match_winner_id m = Some (t_team_id team))
                           (completed_matches_of (t_team_id team) c))),
            int (length (filter (\<lambda>m. m_match_winner_id m \<noteq> Some (t_team_id team))
                           (completed_matches_of (t_team_id team) c)))) \<and>
         ts_matches_lost row = ts_matches_played row - ts_matches_won row"
proof -
  let ?t = "t_team_id team"
  let ?rows = "completed_matches_of ?t c"
  let ?p = "int (length ?rows)"
  let ?w = "int (length (filter (\<lambda>m. m_match_winner_id m = Some ?t) ?rows))"
  have won: "(case sql_sum (map (\<lambda>m. if m_match_winner_id m = Some ?t then 1 else 0) ?rows) of
               None \<Rightarrow> 0 | Some n \<Rightarrow> n) = ?w"
    by (simp add: sql_sum_def sum_indicator)
  have step: "team_statistics_step team c = insert_or_replace_team_statistics ?t ?p ?w (?p - ?w) c"
    using won by (simp add: team_statistics_step_def team_query_def Let_def)
  obtain row where r: "team_statistics (insert_or_replace_team_statistics ?t ?p ?w (?p - ?w) c) =
      team_statistics c @ [row]" "stat_columns row = (Some ?t, ?p, ?w, ?p - ?w)"
    using insert_or_replace_team_statistics_appends by blast
  have "?p - ?w = int (length (filter (\<lambda>m. m_match_winner_id m \<noteq> Some ?t) ?rows))"
    by (rule length_filter_split)
  with r step show ?thesis
    by (auto simp: stat_columns_def)
qed

lemma team_statistics_step_keeps:
  "matches (team_statistics_step team c) = matches c"
  "teams (team_statistics_step team c) = teams c"
  by (simp_all add: team_statistics_step_def insert_or_replace_team_statistics_def Let_def)

lemma completed_matches_of_cong:
  "matches c = matches c' \<Longrightarrow> completed_matches_of t c = completed_matches_of t c'"
  by (simp add: completed_matches_of_def)

lemma team_statistics_loop:
  "\<exists>new. team_statistics (fold team_statistics_step ts c) = team_statistics c @ new \<and>
         length new = length ts \<and>
         matches (fold team_statistics_step ts c) = matches c \<and>
         (\<forall>i < length ts.
            stat_columns (new ! i) =
              (Some (t_team_id (ts ! i)),
               int (length (completed_matches_of (t_team_id (ts ! i)) c)),
               int (length (filter (\<lambda>m. m_match_winner_id m = Some (t_team_id (ts ! i)))
                              (completed_matches_of (t_team_id (ts ! i)) c))),
               int (length (filter (\<lambda>m. m_match_winner_id m \<noteq> Some (t_team_id (ts ! i)))
                              (completed_matches_of (t_team_id (ts ! i)) c)))) \<and>
            ts_matches_lost (new ! i) = ts_matches_played (new ! i) - ts_matches_won (new ! i))"
proof (induction ts arbitrary: c)
  case Nil
  show ?case by simp
next
  case (Cons t ts)
  let ?c1 = "team_statistics_step t c"
  obtain row where row: "team_statistics ?c1 = team_statistics c @ [row]"
    "stat_columns row =
           (Some (t_team_id t),
            int (length (completed_matches_of (t_team_id t) c)),
            int (length (filter (\<lambda>m. m_match_winner_id m = Some (t_team_id t))
                           (completed_matches_of (t_team_id t) c))),
            int (length (filter (\<lambda>m. m_match_winner_id m \<noteq> Some (t_team_id t))
                           (completed_matches_of (t_team_id t) c))))"
    "ts_matches_lost row = ts_matches_played row - ts_matches_won row"
    using team_statistics_step_row by blast
  from Cons.IH [of ?c1] obtain new where new:
    "team_statistics (fold team_statistics_step ts ?c1) = team_statistics ?c1 @ new"
    "length new = length ts"
    "matches (fold team_statistics_step ts ?c1) = matches ?c1"
    "\<forall>i < length ts.
            stat_columns (new ! i) =
              (Some (t_team_id (ts ! i)),
               int (length (completed_matches_of (t_team_id (ts ! i)) ?c1)),
               int (length (filter (\<lambda>m. m_match_winner_id m = Some (t_team_id (ts ! i)))
                              (completed_matches_of (t_team_id (ts ! i)) ?c1))),
               int (length (filter (\<lambda>m. m_match_winner_id m \<noteq> Some (t_team_id (ts ! i)))
                              (completed_matches_of (t_team_id (ts ! i)) ?c1)))) \<and>
            ts_matches_lost (new ! i) = ts_matches_played (new ! i) - ts_matches_won (new ! i)"
    by blast
  have same: "\<And>x. completed_matches_of x ?c1 = completed_matches_of x c"
    by (rule completed_matches_of_cong) (simp add: team_statistics_step_keeps)
  show ?case
  proof (intro exI [of _ "row # new"] conjI allI impI)
    show "team_statistics (fold team_statistics_step (t # ts) c) = team_statistics c @ row # new"
      using new(1) row(1) by simp
    show "length (row # new) = length (t # ts)" using new(2) by simp
    show "matches (fold team_statistics_step (t # ts) c) = matches c"
      using new(3) by (simp add: team_statistics_step_keeps)
  next
    fix i assume i: "i < length (t # ts)"
    show "stat_columns ((row # new) ! i) =
              (Some (t_team_id ((t # ts) ! i)),
               int (length (completed_matches_of (t_team_id ((t # ts) ! i)) c)),
               int (length (filter (\<lambda>m. m_match_winner_id m = Some (t_team_id ((t # ts) ! i)))
                              (completed_matches_of (t_team_id ((t # ts) ! i)) c))),
               int (length (filter (\<lambda>m. m_match_winner_id m \<noteq> Some (t_team_id ((t # ts) ! i)))
                              (completed_matches_of (t_team_id ((t # ts) ! i)) c))))"
      using i row(2) new(4) same by (cases i) auto
    show "ts_matches_lost ((row # new) ! i) =
          ts_matches_played ((row # new) ! i) - ts_matches_won ((row # new) ! i)"
      using i row(3) new(4) by (cases i) auto
  qed
qed

text \<open>
  C10. A run of \<open>update_team_statistics\<close> appends one row per team of the teams table,
  in table order, and in the row of each team \<open>matches_lost\<close> is \<open>matches_played\<close> minus
  \<open>matches_won\<close>, where played counts the completed matches with the team as team1 or
  team2 and won counts those of them whose winner is the team. So \<open>matches_lost\<close> is the
  number of the team's completed matches whose recorded winner is not the team, a
  NULL winner (drawn, tied, not recorded) included.
\<close>

theorem update_team_statistics_lost_is_played_minus_won:
  "\<exists>new. team_statistics (update_team_statistics cursor) = team_statistics cursor @ new \<and>
         length new = length (teams cursor) \<and>
         (\<forall>i < length (teams cursor).
            ts_team_id (new ! i) = Some (t_team_id (teams cursor ! i)) \<and>
            ts_matches_played (new ! i) =
              int (length (completed_matches_of (t_team_id (teams cursor ! i)) cursor)) \<and>
            ts_matches_won (new ! i) =
              int (length (filter (\<lambda>m. m_match_winner_id m = Some (t_team_id (teams cursor ! i)))
                             (completed_matches_of (t_team_id (teams cursor ! i)) cursor))) \<and>
            ts_matches_lost (new ! i) = ts_matches_played (new ! i) - ts_matches_won (new ! i) \<and>
            ts_matches_lost (new ! i) =
              int (length (filter (\<lambda>m. m_match_winner_id m \<noteq> Some (t_team_id (teams cursor ! i)))
                             (completed_matches_of (t_team_id (teams cursor ! i)) cursor))))"
proof -
  from team_statistics_loop [of "teams cursor" cursor] obtain new where new:
    "team_statistics (fold team_statistics_step (teams cursor) cursor) = team_statistics cursor @ new"
    "length new = length (teams cursor)"
    "\<forall>i < length (teams cursor).
            stat_columns (new ! i) =
              (Some (t_team_id (teams cursor ! i)),
               int (length (completed_matches_of (t_team_id (teams cursor ! i)) cursor)),
               int (length (filter (\<lambda>m. m_match_winner_id m = Some (t_team_id (teams cursor ! i)))
                              (completed_matches_of (t_team_id (teams cursor ! i)) cursor))),
               int (length (filter (\<lambda>m. m_match_winner_id m \<noteq> Some (t_team_id (teams cursor ! i)))
                              (completed_matches_of (t_team_id (teams cursor ! i)) cursor)))) \<and>
            ts_matches_lost (new ! i) = ts_matches_played (new ! i) - ts_matches_won (new ! i)"
    by blast
  have rows: "\<forall>i < length (teams cursor).
            ts_team_id (new ! i) = Some (t_team_id (teams cursor ! i)) \<and>
            ts_matches_played (new ! i) =
              int (length (completed_matches_of (t_team_id (teams cursor ! i)) cursor)) \<and>
            ts_matches_won (new ! i) =
              int (length (filter (\<lambda>m. m_match_winner_id m = Some (t_team_id (teams cursor ! i)))
                             (completed_matches_of (t_team_id (teams cursor ! i)) cursor))) \<and>
            ts_matches_lost (new ! i) = ts_matches_played (new ! i) - ts_matches_won (new ! i) \<and>
            ts_matches_lost (new ! i) =
              int (length (filter (\<lambda>m. m_match_winner_id m \<noteq> Some (t_team_id (teams cursor ! i)))
                             (completed_matches_of (t_team_id (teams cursor ! i)) cursor)))"
  proof (intro allI impI)
    fix i assume i: "i < length (teams cursor)"
    let ?t = "t_team_id (teams cursor ! i)"
    from new(3) i have
      sc: "stat_columns (new ! i) =
              (Some ?t, int (length (completed_matches_of ?t cursor)),
               int (length (filter (\<lambda>m. m_match_winner_id m = Some ?t)
                              (completed_matches_of ?t cursor))),
               int (length (filter (\<lambda>m. m_match_winner_id m \<noteq> Some ?t)
                              (completed_matches_of ?t cursor))))"
      and l: "ts_matches_lost (new ! i) = ts_matches_played (new ! i) - ts_matches_won (new ! i)"
      by blast+
    from sc have
      "ts_team_id (new ! i) = Some ?t"
      "ts_matches_played (new ! i) = int (length (completed_matches_of ?t cursor))"
      "ts_matches_won (new ! i) =
         int (length (filter (\<lambda>m. m_match_winner_id m = Some ?t) (completed_matches_of ?t cursor)))"
      "ts_matches_lost (new ! i) =
         int (length (filter (\<lambda>m. m_match_winner_id m \<noteq> Some ?t) (completed_matches_of ?t cursor)))"
      by (simp_all add: stat_columns_def)
    with l show "ts_team_id (new ! i) = Some ?t \<and>
            ts_matches_played (new ! i) = int (length (completed_matches_of ?t cursor)) \<and>
            ts_matches_won (new ! i) =
              int (length (filter (\<lambda>m. m_match_winner_id m = Some ?t)
                             (completed_matches_of ?t cursor))) \<and>
            ts_matches_lost (new ! i) = ts_matches_played (new ! i) - ts_matches_won (new ! i) \<and>
            ts_matches_lost (new ! i) =
              int (length (filter (\<lambda>m. m_match_winner_id m \<noteq> Some ?t)
                             (completed_matches_of ?t cursor)))"
      by blast
  qed
  from new(1,2) rows show ?thesis
    unfolding update_team_statistics_def by blast
qed

theorem update_team_statistics_lost_is_played_minus_won_witness:
  "map stat_columns (team_statistics (update_team_statistics sample_db)) =
     [(Some 1, 2, 1, 1), (Some 2, 2, 0, 2)]"
proof -
  from update_team_statistics_lost_is_played_minus_won [of sample_db] obtain new where new:
    "team_statistics (update_team_statistics sample_db) = team_statistics sample_db @ new"
    "length new = length (teams sample_db)"
    "\<forall>i < length (teams sample_db).
            ts_team_id (new ! i) = Some (t_team_id (teams sample_db ! i)) \<and>
            ts_matches_played (new ! i) =
              int (length (completed_matches_of (t_team_id (teams sample_db ! i)) sample_db)) \<and>
            ts_matches_won (new ! i) =
              int (length (filter (\<lambda>m. m_match_winner_id m = Some (t_team_id (teams sample_db ! i)))
                             (completed_matches_of (t_team_id (teams sample_db ! i)) sample_db))) \<and>
            ts_matches_lost (new ! i) = ts_matches_played (new ! i) - ts_matches_won (new ! i) \<and>
            ts_matches_lost (new ! i) =
              int (length (filter (\<lambda>m. m_match_winner_id m \<noteq> Some (t_team_id (teams sample_db ! i)))
                             (completed_matches_of (t_team_id (teams sample_db ! i)) sample_db)))"
    by blast
  have len: "length new = 2"
    using new(2) by (simp add: sample_db_def empty_db_def)
  then obtain a b where ab: "new = [a, b]"
    by (cases new; cases "tl new"; cases "tl (tl new)") auto
  have t0: "t_team_id (teams sample_db ! 0) = 1" and t1: "t_team_id (teams sample_db ! 1) = 2"
    by (simp_all add: sample_db_def empty_db_def)
  have c1: "completed_matches_of 1 sample_db =
            [sample_match 101 ''Completed'' (Some 1), sample_match 102 ''Completed'' None]"
    and c2: "completed_matches_of 2 sample_db =
            [sample_match 101 ''Completed'' (Some 1), sample_match 102 ''Completed'' None]"
    by (simp_all add: completed_matches_of_def sample_db_def empty_db_def sample_match_def)
  have l0: "0 < length (teams sample_db)" and l1: "1 < length (teams sample_db)"
    by (simp_all add: sample_db_def empty_db_def)
  note r0 = new(3) [rule_format, OF l0] and r1 = new(3) [rule_format, OF l1]
  from r0 have "stat_columns (new ! 0) = (Some 1, 2, 1, 1)"
    unfolding t0 c1 by (simp add: stat_columns_def sample_match_def)
  moreover from r1 have "stat_columns (new ! 1) = (Some 2, 2, 0, 2)"
    unfolding t1 c2 by (simp add: stat_columns_def sample_match_def)
  ultimately show ?thesis
    using new(1) ab by (simp add: sample_db_def empty_db_def)
qed

text \<open>
  C6, evaluated on the code. \<open>team_statistics\<close> has no uniqueness constraint on
  \<open>team_id\<close>, so \<open>INSERT OR REPLACE\<close> replaces nothing: after two runs of
  \<open>update_team_statistics\<close> on a store with teams 1 and 2 the table holds two rows for
  team 1 (and four rows in all), not one.
\<close>

theorem update_team_statistics_twice_duplicates:
  "length (filter (\<lambda>r. ts_team_id r = Some 1)
     (team_statistics (update_team_statistics (update_team_statistics sample_db)))) = 2 \<and>
   map stat_columns (team_statistics (update_team_statistics (update_team_statistics sample_db))) =
     [(Some 1, 2, 1, 1), (Some 2, 2, 0, 2), (Some 1, 2, 1, 1), (Some 2, 2, 0, 2)] \<and>
   map ts_stat_id (team_statistics (update_team_statistics (update_team_statistics sample_db))) =
     [1, 2, 3, 4]"
  by (simp add: update_team_statistics_def team_statistics_step_def team_query_def
      completed_matches_of_def insert_or_replace_team_statistics_def next_rowid_def
      sql_sum_def stat_columns_def sample_db_def sample_match_def empty_db_def Let_def)

section \<open>Properties of the write path\<close>




section \<open>The scorecard ingestor on a player who bats and bowls\<close>

lemma generate_player_id_returns:
  "\<exists>n. generate_player_id md5 self player_key player_name team_id = Inr n"
proof -
  obtain v where "int16 (take 8 (hexdigest
      (md5 (player_key @ ''_'' @ player_name @ ''_'' @ str_opt_int team_id)))) = Inr v"
    using int16_digest_prefix by blast
  then show ?thesis by (simp add: generate_player_id_def)
qed

lemma team_id_unbound:
  "lookup_name (batting_scope match_id innings_num bat_team_id pid added) ''team_id'' =
     Inl (NameError ''team_id'')"
  by (simp add: lookup_name_def batting_scope_def other_names_def)

text \<open>
  Every batting entry that is a dict ends the ingestion: the player row is written,
  then building the parameters of the performance statement raises \<open>NameError\<close>.
\<close>

lemma store_batsman_raises:
  "\<exists>st'. store_batsman md5 match_id innings_num bat_team_id (key, Dict player_data) st =
           (Some (NameError ''team_id''), st') \<and>
         player_match_performance (st_cursor st') = player_match_performance (st_cursor st)"
proof -
  obtain n where "generate_player_id md5 (st_self st) key
      (get_or (batName player_data) (''Player_'' @ key)) bat_team_id = Inr n"
    using generate_player_id_returns by blast
  then show ?thesis
    by (simp add: store_batsman_def Let_def team_id_unbound insert_or_ignore_player_def)
qed

text \<open>
  C1, evaluated on the code. For the scorecard in which player "p1" of team 10 is in
  both blocks of innings 1, \<open>store_scorecard_data_fixed\<close> returns 0 and writes no
  performance row at all, whatever the digest function and the fetcher: the batting
  statement is never executed, because its parameter tuple names the unbound variable
  \<open>team_id\<close>, and the exception ends the method before the bowling block. Only the
  player row is written. (Without the batting block the bowling path does write the
  row of the triple, with its bowling columns.)
\<close>

theorem store_scorecard_data_fixed_writes_no_batting_row:
  "fst (store_scorecard_data_fixed md5 self empty_db 501 rounder_card) = 0 \<and>
   player_match_performance (fst (snd (store_scorecard_data_fixed md5 self empty_db 501 rounder_card)))
     = [] \<and>
   length (players (fst (snd (store_scorecard_data_fixed md5 self empty_db 501 rounder_card)))) = 1 \<and>
   map (\<lambda>r. (pf_match_id r, pf_innings_number r, pf_runs_scored r, pf_overs_bowled r,
              pf_wickets_taken r, pf_runs_conceded r, pf_economy_rate r, pf_maidens r))
     (player_match_performance
        (fst (snd (store_scorecard_data_fixed md5 self empty_db 501 bowling_only_card))))
     = [(501, 1, 0, 4, 2, 30, 15 / 2, 0)]"
proof -
  let ?st = "\<lparr>st_cursor = empty_db, st_self = self, st_players_added = 0\<rparr>"
  let ?pd = "\<lparr>batName = Some ''A Rounder'', batOrder = Some 1,
                runs = Some 50, balls = Some 40, strikeRate = Some 125, fours = Some 5,
                sixes = Some 1, outDesc = Some ''not out''\<rparr>"
  obtain n where n: "generate_player_id md5 self ''p1'' ''A Rounder'' (Some 10) = Inr n"
    using generate_player_id_returns by blast
  have bat: "store_batsman md5 501 1 (Some 10) (''p1'', Dict ?pd) ?st =
             (Some (NameError ''team_id''),
              ?st\<lparr>st_cursor := insert_or_ignore_player n ''A Rounder'' (Some 10) ''Batsman'' ''p1''
                                  empty_db\<rparr>)"
    using n by (simp add: store_batsman_def Let_def team_id_unbound get_or_def)
  have card: "store_scorecard_data_fixed md5 self empty_db 501 rounder_card =
              (0, insert_or_ignore_player n ''A Rounder'' (Some 10) ''Batsman'' ''p1'' empty_db, self)"
    using bat by (simp add: store_scorecard_data_fixed_def rounder_card_def store_innings_def)
  have a: "fst (store_scorecard_data_fixed md5 self empty_db 501 rounder_card) = 0"
    and b: "player_match_performance
              (fst (snd (store_scorecard_data_fixed md5 self empty_db 501 rounder_card))) = []"
    and c: "length (players
              (fst (snd (store_scorecard_data_fixed md5 self empty_db 501 rounder_card)))) = 1"
    unfolding card by (simp_all add: insert_or_ignore_player_def empty_db_def)
  have d: "map (\<lambda>r. (pf_match_id r, pf_innings_number r, pf_runs_scored r, pf_overs_bowled r,
              pf_wickets_taken r, pf_runs_conceded r, pf_economy_rate r, pf_maidens r))
     (player_match_performance
        (fst (snd (store_scorecard_data_fixed md5 self empty_db 501 bowling_only_card))))
     = [(501, 1, 0, 4, 2, 30, 15 / 2, 0)]"
    using n
    by (simp add: store_scorecard_data_fixed_def bowling_only_card_def rounder_bowling_def
        store_innings_def store_bowler_def Let_def get_or_def insert_or_ignore_player_def
        insert_or_ignore_performance_def update_bowling_def bare_performance_def
        same_triple_def next_rowid_def empty_db_def)
  from a b c d show ?thesis by blast
qed

end
